theory Spec2Isabelle
  imports Complex_Main "HOL-Library.Sublist"
begin

section \<open>Text primitives used by \<open>sam_tools.py\<close>\<close>

text \<open>
  A Python \<open>str\<close> is modelled as a \<open>string\<close>, each \<open>char\<close> being read as the code
  point of the same number (U+0000 to U+00FF); code points above U+00FF are outside the
  model. The character classes and line boundaries below are the ones Python 3 applies to
  a \<open>str\<close> on that range.
\<close>

definition code :: "char \<Rightarrow> nat" where
  "code c = of_char c"

text \<open>\<open>\d\<close> of module \<open>re\<close> on a \<open>str\<close> pattern: the decimal digits.\<close>

definition is_digit :: "char \<Rightarrow> bool" where
  "is_digit c = (48 \<le> code c \<and> code c \<le> 57)"

text \<open>\<open>\w\<close> of module \<open>re\<close> on a \<open>str\<close> pattern: alphanumeric characters and the
  underscore, including the letters and numeric signs of the range U+0080 to U+00FF.\<close>

definition is_word :: "char \<Rightarrow> bool" where
  "is_word c =
     (let n = code c in
        (48 \<le> n \<and> n \<le> 57) \<or> (65 \<le> n \<and> n \<le> 90) \<or> n = 95 \<or> (97 \<le> n \<and> n \<le> 122)
        \<or> n = 170 \<or> n = 178 \<or> n = 179 \<or> n = 181 \<or> n = 185 \<or> n = 186
        \<or> n = 188 \<or> n = 189 \<or> n = 190
        \<or> (192 \<le> n \<and> n \<le> 214) \<or> (216 \<le> n \<and> n \<le> 246) \<or> 248 \<le> n)"

text \<open>Line boundaries of \<open>str.splitlines\<close>: LF, VT, FF, CR, FS, GS, RS and NEL; a CR
  directly followed by LF is one boundary.\<close>

definition is_linebreak :: "char \<Rightarrow> bool" where
  "is_linebreak c =
     (let n = code c in
        n = 10 \<or> n = 11 \<or> n = 12 \<or> n = 13 \<or> n = 28 \<or> n = 29 \<or> n = 30 \<or> n = 133)"

fun splitlines_from :: "string \<Rightarrow> string \<Rightarrow> string list" where
  "splitlines_from cur [] = (if cur = [] then [] else [cur])"
| "splitlines_from cur [c] =
     (if is_linebreak c then [cur] else [cur @ [c]])"
| "splitlines_from cur (c # d # ds) =
     (if code c = 13 \<and> code d = 10 then cur # splitlines_from [] ds
      else if is_linebreak c then cur # splitlines_from [] (d # ds)
      else splitlines_from (cur @ [c]) (d # ds))"

definition splitlines :: "string \<Rightarrow> string list" where
  "splitlines s = splitlines_from [] s"

text \<open>\<open>needle in haystack\<close> on strings: the substring test.\<close>

fun contains :: "string \<Rightarrow> string \<Rightarrow> bool" where
  "contains needle [] = (needle = [])"
| "contains needle (c # cs) = (prefix needle (c # cs) \<or> contains needle cs)"

text \<open>\<open>os.path.join(a, b)\<close> of \<open>posixpath\<close> with two arguments.\<close>

definition path_join :: "string \<Rightarrow> string \<Rightarrow> string" where
  "path_join a b =
     (if prefix ''/'' b then b
      else if a = [] \<or> suffix ''/'' a then a @ b
      else a @ ''/'' @ b)"

section \<open>Exceptions\<close>

text \<open>
  The exceptions the module can raise. \<open>Exception m\<close> is \<open>Exception(m)\<close>,
  \<open>RuntimeError m\<close> is \<open>RuntimeError(None, m)\<close>, \<open>IndexError\<close> is a list index out
  of range, \<open>AttributeError a\<close> is the access of attribute \<open>a\<close> on \<open>None\<close>,
  \<open>OverflowError\<close> is an integer too large to convert to \<open>float\<close>,
  \<open>ZeroDivisionError\<close> is a float division by zero, and
  \<open>ProcessError m\<close> is any exception raised while launching a subprocess, waiting for it
  or decoding its output, \<open>m\<close> being its \<open>str()\<close>.
\<close>

datatype exn =
    Exception string
  | RuntimeError string
  | IndexError
  | AttributeError string
  | OverflowError
  | ZeroDivisionError
  | ProcessError string

section \<open>\<open>SamTools._prepare_paths\<close>\<close>

text \<open>Lines 34 to 38: the output file name when the caller gives none. The slices
  \<open>ifile[-4:]\<close> and \<open>ifile[:-4]\<close> are the last four characters (the whole string when
  it is shorter) and what precedes them.\<close>

definition default_ofile :: "string \<Rightarrow> string \<Rightarrow> string \<Rightarrow> string" where
  "default_ofile ifile iext oext =
     (if drop (length ifile - 4) ifile = iext
      then take (length ifile - 4) ifile @ oext
      else ifile @ oext)"

definition prepare_paths ::
  "string \<Rightarrow> string option \<Rightarrow> string option \<Rightarrow> string option \<Rightarrow> string \<Rightarrow> string
     \<Rightarrow> exn + (string \<times> string \<times> string)" where
  "prepare_paths ifile ipath ofile opath iext oext =
     (case ipath of
        None \<Rightarrow> Inl (Exception
          ''Excepted an absolute path to input file to sam tools. Cannot be none.'')
      | Some ip \<Rightarrow>
          (case opath of
             Some p \<Rightarrow>
               if \<not> prefix ''/'' p
               then Inl (Exception (''Output path must be an absolute path. Provided: '' @ p))
               else Inr (path_join ip ifile,
                         path_join p (case ofile of None \<Rightarrow> default_ofile ifile iext oext
                                                   | Some f \<Rightarrow> f),
                         p)
           | None \<Rightarrow>
               Inr (path_join ip ifile,
                    path_join ip (case ofile of None \<Rightarrow> default_ofile ifile iext oext
                                               | Some f \<Rightarrow> f),
                    ip)))"

section \<open>\<open>SamTools._is_valid\<close>\<close>

text \<open>\<open>re.search('(?<=ERROR:)\w+', line)\<close>: the leftmost position that is preceded by
  \<open>ERROR:\<close> and holds a word character; the match is the longest run of word characters
  from there. The scan below moves over the position where \<open>ERROR:\<close> starts.\<close>

fun search_error :: "string \<Rightarrow> string option" where
  "search_error [] = None"
| "search_error (c # cs) =
     (if prefix ''ERROR:'' (c # cs) \<and> takeWhile is_word (drop 6 (c # cs)) \<noteq> []
      then Some (takeWhile is_word (drop 6 (c # cs)))
      else search_error cs)"

text \<open>The loop of lines 119 to 124 over the lines of the report.\<close>

fun scan_lines :: "string list \<Rightarrow> string list \<Rightarrow> bool" where
  "scan_lines ignore [] = True"
| "scan_lines ignore (line # lines) =
     (case search_error line of
        Some tok \<Rightarrow> if tok \<notin> set ignore then False else scan_lines ignore lines
      | None \<Rightarrow> scan_lines ignore lines)"

definition is_valid :: "string option \<Rightarrow> string list option \<Rightarrow> bool" where
  "is_valid result ignore =
     (case result of
        None \<Rightarrow> True
      | Some r \<Rightarrow>
          (let ign = (case ignore of None \<Rightarrow> [''xxx''] | Some l \<Rightarrow> l)
           in if contains ''Exception'' r then False
              else scan_lines ign (splitlines r)))"

text \<open>The default value of the parameter \<open>ignore\<close> of the public operations.\<close>

definition default_ignore :: "string list" where
  "default_ignore = [''MATE_NOT_FOUND'', ''MISSING_READ_GROUP'', ''INVALID_MAPPING_QUALITY'']"

section \<open>Numbers\<close>

text \<open>\<open>int(s)\<close> on a string of decimal digits (no limit on the number of digits is
  modelled).\<close>

definition int_of_digits :: "string \<Rightarrow> int" where
  "int_of_digits s = foldl (\<lambda>a c. 10 * a + (int (code c) - 48)) 0 s"

text \<open>
  The non-negative values of Python's \<open>float\<close> (IEEE 754 binary64): \<open>Dbl m x\<close> is the
  number \<open>m * 2^x\<close>, \<open>Inf\<close> is positive infinity. Every operation below returns the
  exact result rounded to the nearest double, ties to even, with gradual underflow below
  \<open>2^-1022\<close> and overflow to \<open>Inf\<close> from \<open>2^1024\<close>. The same number can have several
  representations \<open>Dbl m x\<close>; \<open>float_val\<close> gives the number.
\<close>

datatype pyfloat = Dbl nat int | Inf

definition float_val :: "pyfloat \<Rightarrow> rat option" where
  "float_val f =
     (case f of
        Inf \<Rightarrow> None
      | Dbl m x \<Rightarrow> Some (if 0 \<le> x then of_nat (m * 2 ^ nat x)
                           else of_nat m / of_nat (2 ^ nat (- x))))"

fun log2floor :: "nat \<Rightarrow> nat" where
  "log2floor n = (if n < 2 then 0 else Suc (log2floor (n div 2)))"

declare log2floor.simps [simp del]

text \<open>\<open>binade N D\<close> is the integer \<open>e\<close> with \<open>2^e \<le> N / D < 2^(e+1)\<close>, for positive
  \<open>N\<close> and \<open>D\<close>.\<close>

definition binade :: "nat \<Rightarrow> nat \<Rightarrow> int" where
  "binade N D =
     (let k = int (log2floor N) - int (log2floor D)
      in if (if 0 \<le> k then D * 2 ^ nat k \<le> N else D \<le> N * 2 ^ nat (- k)) then k else k - 1)"

definition round_half_even :: "nat \<Rightarrow> nat \<Rightarrow> nat" where
  "round_half_even N D =
     (let q = N div D; r = N mod D
      in if 2 * r < D then q else if D < 2 * r then q + 1
         else if even q then q else q + 1)"

text \<open>The double nearest to the fraction \<open>N / D\<close>, for positive \<open>D\<close>.\<close>

definition round_double :: "nat \<Rightarrow> nat \<Rightarrow> pyfloat" where
  "round_double N D =
     (if N = 0 then Dbl 0 0
      else
        (let x = max (binade N D) (- 1022) - 52;
             m = (if x \<le> 0 then round_half_even (N * 2 ^ nat (- x)) D
                  else round_half_even N (D * 2 ^ nat x))
         in if 971 < x \<or> (x = 971 \<and> 2 ^ 53 \<le> m) then Inf else Dbl m x))"

text \<open>\<open>float(i)\<close> for an integer \<open>i\<close>, which is never negative where the module calls
  it: correctly rounded, and \<open>OverflowError\<close> where the result would be infinite.\<close>

definition float_of_int :: "int \<Rightarrow> exn + pyfloat" where
  "float_of_int i =
     (case round_double (nat i) 1 of Inf \<Rightarrow> Inl OverflowError | Dbl m x \<Rightarrow> Inr (Dbl m x))"

text \<open>\<open>a / b\<close> on floats; the divisor is finite where the module divides.\<close>

definition fdiv :: "pyfloat \<Rightarrow> pyfloat \<Rightarrow> exn + pyfloat" where
  "fdiv a b =
     (case b of
        Inf \<Rightarrow> Inr (Dbl 0 0)
      | Dbl m2 x2 \<Rightarrow>
          if m2 = 0 then Inl ZeroDivisionError
          else (case a of
                  Inf \<Rightarrow> Inr Inf
                | Dbl m1 x1 \<Rightarrow>
                    Inr (round_double (m1 * 2 ^ nat (x1 - x2)) (m2 * 2 ^ nat (x2 - x1)))))"

text \<open>\<open>a * 100.0\<close> on floats.\<close>

definition fmul100 :: "pyfloat \<Rightarrow> pyfloat" where
  "fmul100 a =
     (case a of
        Inf \<Rightarrow> Inf
      | Dbl m x \<Rightarrow> round_double (m * 100 * 2 ^ nat x) (2 ^ nat (- x)))"

text \<open>\<open>a > 100\<close> on floats.\<close>

definition fgt100 :: "pyfloat \<Rightarrow> bool" where
  "fgt100 a =
     (case a of
        Inf \<Rightarrow> True
      | Dbl m x \<Rightarrow> if 0 \<le> x then 100 < m * 2 ^ nat x else 100 * 2 ^ nat (- x) < m)"

text \<open>A Python number held by \<open>alignment_rate\<close>: the integer \<open>0\<close> or a float.\<close>

datatype pynum = PyInt int | PyFloat pyfloat

section \<open>Logging\<close>

text \<open>
  Everything the module does to the outside is recorded, in order, as a list of events:
  a call of a method of \<open>self.logger\<close>, a call of \<open>script_utils.log\<close> (message, level
  when given, logger when given), a lookup of a program by \<open>script_utils.whereis\<close>, the
  launch of a shell command by \<open>Popen\<close> with its working directory, and the wait for
  the output of a launched command (\<open>communicate\<close>, \<open>wait\<close>).
\<close>

datatype level = DEBUG | INFO | WARNING | ERROR | CRITICAL

type_synonym logger = string

text \<open>A logged message is a list of parts: literal text, or the \<open>repr\<close> of the bytes
  of a subprocess output (given by its decoded text), as an f-string formats it.\<close>

datatype msg_part = Txt string | BytesRepr string

datatype event =
    LoggerCall logger level string
  | Log "msg_part list" "level option" "logger option"
  | Whereis string
  | Popen string "string option"
  | Communicate string

section \<open>\<open>SamTools._extractAlignmentStatsInfo\<close>\<close>

text \<open>\<open>re.compile(r'^(\d+) \+ (\d+)').match(line)\<close>: the two groups, or \<open>None\<close>.\<close>

definition two_nums :: "string \<Rightarrow> (string \<times> string) option" where
  "two_nums line =
     (let a = takeWhile is_digit line; r = dropWhile is_digit line
      in if a = [] \<or> \<not> prefix '' + '' r then None
         else (let b = takeWhile is_digit (drop 3 r)
               in if b = [] then None else Some (a, b)))"

text \<open>\<open>m = two_nums.match(lines[i])\<close> followed by \<open>m.group(...)\<close>: \<open>IndexError\<close> when
  the list has no line \<open>i\<close>, \<open>AttributeError\<close> when the line does not match.\<close>

definition match_line :: "string list \<Rightarrow> nat \<Rightarrow> exn + (string \<times> string)" where
  "match_line lines i =
     (if length lines \<le> i then Inl IndexError
      else (case two_nums (lines ! i) of
              None \<Rightarrow> Inl (AttributeError ''group'')
            | Some g \<Rightarrow> Inr g))"

record stats_data =
  alignment_rate :: pynum
  multiple_alignments :: int
  properly_paired :: int
  singletons :: int
  total_reads :: int
  unmapped_reads :: int
  mapped_reads :: int

definition zero_total_message :: string where
  "zero_total_message =
     ''alignment stats don'' @ [CHR 0x27] @
     ''t look right. total_qcpr + total_qcfr = 0. setting aligment_rate = 0.''"

text \<open>Lines 73 to 80: the alignment rate, with the events of the logger.\<close>

definition alignment_rate_of ::
  "logger option \<Rightarrow> int \<Rightarrow> int \<Rightarrow> (exn + pynum) \<times> event list" where
  "alignment_rate_of lg mapped_r total_read =
     (if total_read = 0 then
        (case lg of
           None \<Rightarrow> (Inl (AttributeError ''error''), [])
         | Some l \<Rightarrow> (Inr (PyInt 0), [LoggerCall l ERROR zero_total_message]))
      else
        (case float_of_int mapped_r of
           Inl e \<Rightarrow> (Inl e, [])
         | Inr fm \<Rightarrow>
             (case float_of_int total_read of
                Inl e \<Rightarrow> (Inl e, [])
              | Inr ft \<Rightarrow>
                  (case fdiv fm ft of
                     Inl e \<Rightarrow> (Inl e, [])
                   | Inr q \<Rightarrow>
                       (let r = fmul100 q
                        in (Inr (PyFloat (if fgt100 r then Dbl 100 0 else r)), []))))))"

definition extract_lines ::
  "logger option \<Rightarrow> string list \<Rightarrow> (exn + stats_data) \<times> event list" where
  "extract_lines lg lines =
     (case match_line lines 0 of
        Inl e \<Rightarrow> (Inl e, [])
      | Inr (g1, g2) \<Rightarrow>
          (let total_read = int_of_digits g1 + int_of_digits g2
           in case match_line lines 4 of
                Inl e \<Rightarrow> (Inl e, [])
              | Inr (h1, h2) \<Rightarrow>
                  (let mapped_r = int_of_digits h1;
                       unmapped_r = total_read - mapped_r
                   in case alignment_rate_of lg mapped_r total_read of
                        (Inl e, evs) \<Rightarrow> (Inl e, evs)
                      | (Inr rate, evs) \<Rightarrow>
                          (case match_line lines 10 of
                             Inl e \<Rightarrow> (Inl e, evs)
                           | Inr (s1, s2) \<Rightarrow>
                               (case match_line lines 8 of
                                  Inl e \<Rightarrow> (Inl e, evs)
                                | Inr (p1, p2) \<Rightarrow>
                                    (Inr \<lparr>alignment_rate = rate,
                                          multiple_alignments = 0,
                                          properly_paired = int_of_digits p1,
                                          singletons = int_of_digits s1,
                                          total_reads = total_read,
                                          unmapped_reads = unmapped_r,
                                          mapped_reads = mapped_r\<rparr>, evs))))))"

definition extractAlignmentStatsInfo ::
  "logger option \<Rightarrow> string \<Rightarrow> (exn + stats_data) \<times> event list" where
  "extractAlignmentStatsInfo lg stats = extract_lines lg (splitlines stats)"

section \<open>The outside world\<close>

text \<open>
  What the module reads from its environment:
  \<^item> \<open>path_exists\<close> is \<open>os.path.exists\<close>;
  \<^item> \<open>whereis\<close> is \<open>script_utils.whereis\<close> (not part of the module): the location of
    a program, or a false value (\<open>None\<close> or the empty string) when it is not found;
  \<^item> \<open>env_PATH\<close> is \<open>os.environ.get('PATH', '')\<close>;
  \<^item> \<open>popen cmd cwd\<close> is \<open>Popen(cmd, shell=True, ..., cwd=cwd)\<close>: \<open>None\<close> when the
    process is launched, \<open>Some m\<close> when the call raises an exception whose \<open>str()\<close> is
    \<open>m\<close>;
  \<^item> \<open>communicate cmd\<close> is the wait for the process launched by \<open>cmd\<close>
    (\<open>communicate()\<close>, \<open>wait()\<close>) together with the decoding of its output where the
    module decodes it: the decoded standard output, or the \<open>str()\<close> of the exception
    raised.
\<close>

record world =
  path_exists :: "string \<Rightarrow> bool"
  whereis :: "string \<Rightarrow> string option"
  env_PATH :: string
  popen :: "string \<Rightarrow> string option \<Rightarrow> string option"
  communicate :: "string \<Rightarrow> string + string"

section \<open>\<open>SamTools._check_prog\<close>\<close>

definition check_prog :: "world \<Rightarrow> (exn + unit) \<times> event list" where
  "check_prog w =
     (case whereis w ''samtools'' of
        None \<Rightarrow>
          (Inl (RuntimeError (''samtools command not found in your PATH environmental variable. ''
                              @ env_PATH w)), [Whereis ''samtools''])
      | Some progPath \<Rightarrow>
          if progPath = []
          then (Inl (RuntimeError
                  (''samtools command not found in your PATH environmental variable. ''
                   @ env_PATH w)), [Whereis ''samtools''])
          else (Inr (), [Whereis ''samtools'']))"

section \<open>\<open>SamTools.validate\<close>\<close>

definition validate_command :: "string \<Rightarrow> string" where
  "validate_command ifile =
     ''java -jar /opt/picard/build/libs/picard.jar ValidateSamFile I='' @ ifile
     @ '' MODE=SUMMARY''"

definition validate ::
  "world \<Rightarrow> logger option \<Rightarrow> string \<Rightarrow> string \<Rightarrow> string list option
     \<Rightarrow> (exn + int) \<times> event list" where
  "validate w lg ifile ipath ignore =
     (if \<not> prefix ''/'' ipath
      then (Inl (Exception (''Input path must be an absolute path. Provided: '' @ ipath)), [])
      else
        (let f = path_join ipath ifile
         in if \<not> path_exists w f
            then (Inl (RuntimeError (''Input file does not exist: '' @ f)), [])
            else
              (case popen w (validate_command f) None of
                 Some ex \<Rightarrow>
                   (Inr 1, [Popen (validate_command f) None,
                            Log [Txt (f @ '' failed validation. '' @ ex)] (Some ERROR) lg])
               | None \<Rightarrow>
                   (case communicate w (validate_command f) of
                      Inl ex \<Rightarrow>
                        (Inr 1, [Popen (validate_command f) None,
                                 Communicate (validate_command f),
                                 Log [Txt (f @ '' failed validation. '' @ ex)] (Some ERROR) lg])
                    | Inr result \<Rightarrow>
                        if is_valid (Some result) ignore
                        then (Inr 0, [Popen (validate_command f) None,
                                      Communicate (validate_command f),
                                      Log [Txt (f @ '' passed validation'')] (Some INFO) lg])
                        else (Inr 1, [Popen (validate_command f) None,
                                      Communicate (validate_command f),
                                      Log [Txt (f @ '' failed validation with errors: ''),
                                           BytesRepr result] (Some ERROR) lg])))))"

section \<open>The conversion and indexing operations\<close>

text \<open>\<open>if validate and self.validate(ifile, ipath, ignore=ignore) == 1: return 1\<close>:
  \<open>Some r\<close> when the operation ends here (an exception of \<open>validate\<close>, or the value 1),
  \<open>None\<close> when it goes on.\<close>

definition pre_validate ::
  "world \<Rightarrow> logger option \<Rightarrow> bool \<Rightarrow> string \<Rightarrow> string option \<Rightarrow> string list option
     \<Rightarrow> (exn + int) option \<times> event list" where
  "pre_validate w lg flag ifile ipath ignore =
     (if \<not> flag then (None, [])
      else (case ipath of
              None \<Rightarrow> (Some (Inl (AttributeError ''startswith'')), [])
            | Some ip \<Rightarrow>
                (case validate w lg ifile ip ignore of
                   (Inl e, evs) \<Rightarrow> (Some (Inl e), evs)
                 | (Inr r, evs) \<Rightarrow> if r = 1 then (Some (Inr 1), evs) else (None, evs))))"

text \<open>The statements of a \<open>try\<close> block that launch processes and wait for them, run in
  order up to the first one that raises: the \<open>str()\<close> of the exception if any, and the
  events.\<close>

datatype proc_step = Launch string "string option" | Wait string

fun run_steps :: "world \<Rightarrow> proc_step list \<Rightarrow> string option \<times> event list" where
  "run_steps w [] = (None, [])"
| "run_steps w (Launch cmd cwd # steps) =
     (case popen w cmd cwd of
        Some ex \<Rightarrow> (Some ex, [Popen cmd cwd])
      | None \<Rightarrow> (case run_steps w steps of (r, evs) \<Rightarrow> (r, Popen cmd cwd # evs)))"
| "run_steps w (Wait cmd # steps) =
     (case communicate w cmd of
        Inl ex \<Rightarrow> (Some ex, [Communicate cmd])
      | Inr out \<Rightarrow> (case run_steps w steps of (r, evs) \<Rightarrow> (r, Communicate cmd # evs)))"

definition sort_command :: "string \<Rightarrow> string" where
  "sort_command ofile = ''samtools sort -l 9 -O BAM > '' @ ofile"

definition view_bS_command :: "string \<Rightarrow> string" where
  "view_bS_command ifile = ''samtools view -bS '' @ ifile"

definition view_h_command :: "string \<Rightarrow> string \<Rightarrow> string" where
  "view_h_command ifile ofile = ''samtools view -h '' @ ifile @ '' > '' @ ofile"

definition index_command :: "string \<Rightarrow> string \<Rightarrow> string" where
  "index_command ifile ofile = ''samtools index '' @ ifile @ '' '' @ ofile"

definition flagstat_command :: "string \<Rightarrow> string" where
  "flagstat_command ifile = ''samtools flagstat '' @ ifile"

definition failed_to_convert :: "string \<Rightarrow> string \<Rightarrow> string \<Rightarrow> event" where
  "failed_to_convert ifile ofile ex =
     Log [Txt (''failed to convert '' @ ifile @ '' to '' @ ofile @ ''. '' @ ex)]
         (Some ERROR) None"

definition convert_sam_to_sorted_bam ::
  "world \<Rightarrow> logger option \<Rightarrow> string \<Rightarrow> string option \<Rightarrow> string option \<Rightarrow> string option
     \<Rightarrow> bool \<Rightarrow> string list option \<Rightarrow> (exn + int) \<times> event list" where
  "convert_sam_to_sorted_bam w lg ifile ipath ofile opath validate_flag ignore =
     (case prepare_paths ifile ipath ofile opath ''.sam'' ''.bam'' of
        Inl e \<Rightarrow> (Inl e, [])
      | Inr (ifile', ofile', opath') \<Rightarrow>
          if \<not> path_exists w ifile'
          then (Inl (RuntimeError (''Input sam file does not exist: '' @ ifile')), [])
          else
            (case pre_validate w lg validate_flag ifile' ipath ignore of
               (Some r, evs) \<Rightarrow> (r, evs)
             | (None, evs) \<Rightarrow>
                 (case check_prog w of
                    (Inl e, evs2) \<Rightarrow> (Inl e, evs @ evs2)
                  | (Inr u, evs2) \<Rightarrow>
                      (case run_steps w [Launch (sort_command ofile') (Some opath'),
                                         Launch (view_bS_command ifile') (Some opath'),
                                         Wait (sort_command ofile'),
                                         Wait (view_bS_command ifile')] of
                         (raised, evs3) \<Rightarrow>
                           (Inr 0,
                            evs @ evs2
                            @ [Log [Txt (''Converting sam to sorted bam for file: '' @ ifile'
                                         @ '' with cwd: '' @ opath')] None None]
                            @ evs3
                            @ (case raised of
                                 Some ex \<Rightarrow> [failed_to_convert ifile' ofile' ex]
                               | None \<Rightarrow> []))))))"

definition convert_bam_to_sam ::
  "world \<Rightarrow> logger option \<Rightarrow> string \<Rightarrow> string option \<Rightarrow> string option \<Rightarrow> string option
     \<Rightarrow> bool \<Rightarrow> string list option \<Rightarrow> (exn + int) \<times> event list" where
  "convert_bam_to_sam w lg ifile ipath ofile opath validate_flag ignore =
     (case prepare_paths ifile ipath ofile opath ''.sam'' ''.bam'' of
        Inl e \<Rightarrow> (Inl e, [])
      | Inr (ifile', ofile', opath') \<Rightarrow>
          if \<not> path_exists w ifile'
          then (Inl (RuntimeError (''Input bam file does not exist: '' @ ifile')), [])
          else
            (case pre_validate w lg validate_flag ifile' ipath ignore of
               (Some r, evs) \<Rightarrow> (r, evs)
             | (None, evs) \<Rightarrow>
                 (case check_prog w of
                    (Inl e, evs2) \<Rightarrow> (Inl e, evs @ evs2)
                  | (Inr u, evs2) \<Rightarrow>
                      (case run_steps w [Launch (view_h_command ifile' ofile') (Some opath'),
                                         Wait (view_h_command ifile' ofile')] of
                         (raised, evs3) \<Rightarrow>
                           (Inr 0,
                            evs @ evs2
                            @ [Log [Txt (''Converting bam to sam for file: '' @ ifile'
                                         @ '' with output file: '' @ ofile'
                                         @ '' and cwd: '' @ opath')] None None]
                            @ evs3
                            @ (case raised of
                                 Some ex \<Rightarrow> [failed_to_convert ifile' ofile' ex]
                               | None \<Rightarrow> []))))))"

definition create_bai_from_bam ::
  "world \<Rightarrow> logger option \<Rightarrow> string \<Rightarrow> string option \<Rightarrow> string option \<Rightarrow> string option
     \<Rightarrow> bool \<Rightarrow> string list option \<Rightarrow> (exn + int) \<times> event list" where
  "create_bai_from_bam w lg ifile ipath ofile opath validate_flag ignore =
     (case prepare_paths ifile ipath ofile opath ''.bam'' ''.bai'' of
        Inl e \<Rightarrow> (Inl e, [])
      | Inr (ifile', ofile', opath') \<Rightarrow>
          if \<not> path_exists w ifile'
          then (Inl (RuntimeError (''Input bam file does not exist: '' @ ifile')), [])
          else
            (case pre_validate w lg validate_flag ifile' ipath ignore of
               (Some r, evs) \<Rightarrow> (r, evs)
             | (None, evs) \<Rightarrow>
                 (case check_prog w of
                    (Inl e, evs2) \<Rightarrow> (Inl e, evs @ evs2)
                  | (Inr u, evs2) \<Rightarrow>
                      (case run_steps w [Launch (index_command ifile' ofile') (Some opath'),
                                         Wait (index_command ifile' ofile')] of
                         (raised, evs3) \<Rightarrow>
                           (case raised of
                              Some ex \<Rightarrow>
                                (Inr 1,
                                 evs @ evs2
                                 @ [Log [Txt (''Creating bai from bam for file: '' @ ifile'
                                              @ '' with output file: '' @ ofile'
                                              @ '' and cwd: '' @ opath')] None None]
                                 @ evs3 @ [failed_to_convert ifile' ofile' ex])
                            | None \<Rightarrow>
                                (Inr 0,
                                 evs @ evs2
                                 @ [Log [Txt (''Creating bai from bam for file: '' @ ifile'
                                              @ '' with output file: '' @ ofile'
                                              @ '' and cwd: '' @ opath')] None None]
                                 @ evs3))))))"

section \<open>\<open>SamTools.get_stats\<close>\<close>

definition get_stats ::
  "world \<Rightarrow> logger option \<Rightarrow> string \<Rightarrow> string \<Rightarrow> (exn + stats_data) \<times> event list" where
  "get_stats w lg ifile ipath =
     (if \<not> prefix ''/'' ipath
      then (Inl (Exception (''Input path must be an absolute path. Provided: '' @ ipath)), [])
      else
        (let f = path_join ipath ifile
         in if \<not> path_exists w f
            then (Inl (RuntimeError (''Input bam file does not exist: '' @ f)), [])
            else
              (case check_prog w of
                 (Inl e, evs) \<Rightarrow> (Inl e, evs)
               | (Inr u, evs) \<Rightarrow>
                   (case popen w (flagstat_command f) None of
                      Some ex \<Rightarrow> (Inl (ProcessError ex), evs @ [Popen (flagstat_command f) None])
                    | None \<Rightarrow>
                        (case communicate w (flagstat_command f) of
                           Inl ex \<Rightarrow>
                             (Inl (ProcessError ex),
                              evs @ [Popen (flagstat_command f) None,
                                     Communicate (flagstat_command f)])
                         | Inr stats \<Rightarrow>
                             (case extractAlignmentStatsInfo lg stats of
                                (r, evs2) \<Rightarrow>
                                  (r, evs @ [Popen (flagstat_command f) None,
                                             Communicate (flagstat_command f)] @ evs2)))))))"

section \<open>Concrete inputs\<close>

text \<open>A machine on which \<open>/data/reads.sam\<close> and \<open>/data/reads.bam\<close> exist,
  \<open>samtools\<close> is installed, every process is launched and finishes, and the validator
  and \<open>samtools\<close> print nothing.\<close>

definition quiet_world :: world where
  "quiet_world =
     \<lparr>path_exists = (\<lambda>p. p = ''/data/reads.sam'' \<or> p = ''/data/reads.bam''),
      whereis = (\<lambda>prog. Some (''/usr/bin/'' @ prog)),
      env_PATH = ''/usr/bin'',
      popen = (\<lambda>cmd cwd. None),
      communicate = (\<lambda>cmd. Inr [])\<rparr>"

text \<open>The same machine, on which no process can be launched: every \<open>Popen\<close> raises.\<close>

definition no_launch_world :: world where
  "no_launch_world = quiet_world\<lparr>popen := (\<lambda>cmd cwd. Some ''cannot fork'')\<rparr>"

text \<open>The same machine with no file at all.\<close>

definition no_file_world :: world where
  "no_file_world = quiet_world\<lparr>path_exists := (\<lambda>p. False)\<rparr>"

text \<open>A flagstat report of eleven lines counting no read at all, and the report of the
  specification's example.\<close>

definition zero_report :: string where
  "zero_report =
     ''0 + 0 in total\<newline>0 + 0 a\<newline>0 + 0 b\<newline>0 + 0 c\<newline>0 + 0 mapped\<newline>0 + 0 d\<newline>''
     @ ''0 + 0 e\<newline>0 + 0 f\<newline>0 + 0 properly paired\<newline>0 + 0 g\<newline>0 + 0 singletons\<newline>''"

definition example_report :: string where
  "example_report =
     ''10 + 2\<newline>filler\<newline>filler\<newline>filler\<newline>8 + 0\<newline>filler\<newline>filler\<newline>filler\<newline>6 + 0\<newline>filler\<newline>1 + 0''"

section \<open>Subprocess failure\<close>

text \<open>The invocation of the command \<open>cmd\<close> raises: at its launch, or while waiting for
  the launched process.\<close>

definition raises :: "world \<Rightarrow> string \<Rightarrow> string option \<Rightarrow> bool" where
  "raises w cmd cwd =
     (case popen w cmd cwd of Some ex \<Rightarrow> True | None \<Rightarrow> isl (communicate w cmd))"

section \<open>Evaluation rules\<close>

lemmas text_defs =
  code_def is_digit_def is_word_def is_linebreak_def splitlines_def suffix_to_prefix

lemmas path_defs = prepare_paths_def default_ofile_def path_join_def suffix_to_prefix

lemmas command_defs =
  validate_command_def sort_command_def view_bS_command_def view_h_command_def
  index_command_def flagstat_command_def failed_to_convert_def

lemmas stats_defs =
  extractAlignmentStatsInfo_def extract_lines_def match_line_def two_nums_def
  int_of_digits_def alignment_rate_of_def Let_def

section \<open>Lemmas on the text primitives\<close>

lemma takeWhile_token:
  assumes "\<forall>c\<in>set tok. P c" "rest = [] \<or> \<not> P (hd rest)"
  shows "takeWhile P (tok @ rest) = tok"
proof -
  have "takeWhile P rest = []"
    using assms(2) by (cases rest) auto
  with assms(1) show ?thesis
    by (simp add: takeWhile_append2)
qed

lemma no_straddling_marker:
  assumes "prefix ''ERROR:'' (q @ ''ERROR:'' @ t)" "q \<noteq> []"
  shows "prefix ''ERROR:'' q"
proof -
  from assms(1) consider "prefix ''ERROR:'' q"
    | us where "''ERROR:'' = q @ us" "prefix us (''ERROR:'' @ t)"
    unfolding prefix_append by blast
  then show ?thesis
  proof cases
    case 1
    then show ?thesis .
  next
    case 2
    have us: "us = drop (length q) ''ERROR:''"
      using 2(1) by (metis append_eq_conv_conj)
    have "length q \<le> 6"
      using arg_cong [OF 2(1), of length] by simp
    moreover have "length q \<noteq> 0"
      using assms(2) by simp
    ultimately consider "length q = 1" | "length q = 2" | "length q = 3" | "length q = 4"
      | "length q = 5" | "length q = 6"
      by linarith
    then have "us = []"
      using 2(2) us by cases simp_all
    with 2(1) show ?thesis by simp
  qed
qed

lemma search_error_skip:
  "\<not> prefix ''ERROR:'' (c # cs) \<Longrightarrow> search_error (c # cs) = search_error cs"
  by (simp del: Cons_prefix_Cons)

lemma search_error_first:
  assumes "\<not> contains ''ERROR:'' pre" "tok \<noteq> []" "\<forall>c\<in>set tok. is_word c"
    "rest = [] \<or> \<not> is_word (hd rest)"
  shows "search_error (pre @ ''ERROR:'' @ tok @ rest) = Some tok"
proof -
  define X where "X = ''ERROR:'' @ tok @ rest"
  have base: "search_error X = Some tok"
  proof -
    have "takeWhile is_word (tok @ rest) = tok"
      using assms(3,4) by (rule takeWhile_token)
    with assms(2) show ?thesis by (simp add: X_def)
  qed
  have "search_error (pre @ X) = Some tok"
    using assms(1)
  proof (induction pre)
    case Nil
    with base show ?case by simp
  next
    case (Cons c p)
    then have np: "\<not> prefix ''ERROR:'' (c # p)" and nc: "\<not> contains ''ERROR:'' p"
      by simp_all
    have "\<not> prefix ''ERROR:'' ((c # p) @ X)"
      unfolding X_def using np no_straddling_marker [of "c # p" "tok @ rest"] by blast
    then have "\<not> prefix ''ERROR:'' (c # (p @ X))"
      unfolding append_Cons .
    then have step: "search_error (c # (p @ X)) = search_error (p @ X)"
      by (rule search_error_skip)
    have "search_error ((c # p) @ X) = search_error (c # (p @ X))"
      by (simp only: append_Cons)
    also have "\<dots> = search_error (p @ X)"
      by (rule step)
    also have "\<dots> = Some tok"
      by (rule Cons.IH [OF nc])
    finally show ?case .
  qed
  then show ?thesis by (simp only: X_def)
qed

lemma scan_lines_append:
  "scan_lines ignore (xs @ ys) = (scan_lines ignore xs \<and> scan_lines ignore ys)"
  by (induction xs) (auto split: option.splits)

lemma last4_is_suffix:
  "length iext = 4 \<Longrightarrow> (drop (length ifile - 4) ifile = iext) = suffix iext ifile"
proof
  assume "length iext = 4" "drop (length ifile - 4) ifile = iext"
  then show "suffix iext ifile"
    by (metis suffix_drop)
next
  assume len: "length iext = 4" and "suffix iext ifile"
  then obtain stem where "ifile = stem @ iext"
    by (auto simp: suffix_def)
  with len show "drop (length ifile - 4) ifile = iext"
    by simp
qed

lemma not_suffix_not_last4:
  assumes "\<not> suffix iext ifile"
  shows "drop (length ifile - 4) ifile \<noteq> iext"
  using assms suffix_drop by metis

section \<open>Lemmas on numbers and on the lines of a report\<close>

lemma log2floor_le: "1 \<le> n \<Longrightarrow> 2 ^ log2floor n \<le> n"
proof (induction n rule: log2floor.induct)
  case (1 n)
  show ?case
  proof (cases "n < 2")
    case True
    with "1.prems" show ?thesis by (simp add: log2floor.simps)
  next
    case False
    then have "1 \<le> n div 2" by simp
    with "1.IH" False have "2 ^ log2floor (n div 2) \<le> n div 2" by simp
    then have "2 * 2 ^ log2floor (n div 2) \<le> n" by simp
    with False show ?thesis by (simp add: log2floor.simps [of n])
  qed
qed

lemma log2floor_numeral:
  "log2floor 0 = 0"
  "log2floor (Suc 0) = 0"
  "log2floor (numeral Num.One) = 0"
  "log2floor (numeral (Num.Bit0 k)) = Suc (log2floor (numeral k))"
  "log2floor (numeral (Num.Bit1 k)) = Suc (log2floor (numeral k))"
proof -
  show "log2floor 0 = 0" "log2floor (Suc 0) = 0" "log2floor (numeral Num.One) = 0"
    by (simp_all add: log2floor.simps)
  have "numeral (Num.Bit0 k) div 2 = (numeral k :: nat)"
    by simp
  moreover have "\<not> numeral (Num.Bit0 k) < (2::nat)"
    by simp
  ultimately show "log2floor (numeral (Num.Bit0 k)) = Suc (log2floor (numeral k))"
    by (subst log2floor.simps) (simp only: if_False)
  have "numeral (Num.Bit1 k) div 2 = (numeral k :: nat)"
    by simp
  moreover have "\<not> numeral (Num.Bit1 k) < (2::nat)"
    by simp
  ultimately show "log2floor (numeral (Num.Bit1 k)) = Suc (log2floor (numeral k))"
    by (subst log2floor.simps) (simp only: if_False)
qed

lemmas float_defs =
  float_of_int_def round_double_def binade_def round_half_even_def fdiv_def fmul100_def
  fgt100_def log2floor_numeral

lemma round_half_even_ge: "N div D \<le> round_half_even N D"
  by (simp add: round_half_even_def Let_def)

lemma log2floor_one: "log2floor (Suc 0) = 0"
  by (simp add: log2floor.simps)

lemma binade_of_nat: "Suc 0 \<le> N \<Longrightarrow> binade N (Suc 0) = int (log2floor N)"
  using log2floor_le [of N] by (simp add: binade_def log2floor_one)

lemma round_double_positive:
  assumes "1 \<le> N" "round_double N 1 = Dbl m x"
  shows "1 \<le> m"
proof -
  define y where "y = int (log2floor N) - 52"
  have x: "max (binade N 1) (- 1022) - 52 = y"
    using assms(1) by (simp add: binade_of_nat y_def)
  show ?thesis
  proof (cases "y \<le> 0")
    case True
    have "1 \<le> N * 2 ^ nat (- y)"
      using assms(1) by (simp add: Suc_le_eq)
    then have "1 \<le> round_half_even (N * 2 ^ nat (- y)) 1"
      by (simp add: round_half_even_def)
    with assms True x show ?thesis
      by (auto simp: round_double_def Let_def split: if_splits)
  next
    case False
    then have "log2floor N = nat y + 52"
      by (simp add: y_def)
    with log2floor_le [OF assms(1)] have "2 ^ nat y * 2 ^ 52 \<le> N"
      by (simp add: power_add)
    then have "(2::nat) ^ 52 \<le> N div 2 ^ nat y"
      by (simp add: less_eq_div_iff_mult_less_eq mult.commute)
    then have "1 \<le> N div 2 ^ nat y"
      by simp
    then have "1 \<le> round_half_even N (2 ^ nat y)"
      using round_half_even_ge [of N "2 ^ nat y"] by linarith
    with assms False x show ?thesis
      by (auto simp: round_double_def Let_def split: if_splits)
  qed
qed

lemma float_of_int_positive:
  assumes "1 \<le> i" "float_of_int i = Inr f"
  shows "\<exists>m x. f = Dbl m x \<and> 1 \<le> m"
proof -
  have n: "1 \<le> nat i" using assms(1) by simp
  from assms(2) obtain m x where r: "round_double (nat i) 1 = Dbl m x" and f: "f = Dbl m x"
    by (auto simp: float_of_int_def split: pyfloat.splits)
  from round_double_positive [OF n r] f show ?thesis by blast
qed

lemma alignment_rate_of_errors:
  assumes "0 \<le> tot" "fst (alignment_rate_of lg mapped tot) = Inl e"
  shows "e = AttributeError ''error'' \<or> e = OverflowError"
proof (cases "tot = 0")
  case True
  with assms(2) show ?thesis
    by (auto simp: alignment_rate_of_def split: option.splits)
next
  case False
  with assms(1) have pos: "1 \<le> tot" by simp
  have fm: "float_of_int mapped = Inl e' \<Longrightarrow> e' = OverflowError" for e'
    by (auto simp: float_of_int_def split: pyfloat.splits)
  have ft: "float_of_int tot = Inl e' \<Longrightarrow> e' = OverflowError" for e'
    by (auto simp: float_of_int_def split: pyfloat.splits)
  have fd: "float_of_int tot = Inr b \<Longrightarrow> fdiv a b = Inl e' \<Longrightarrow> False" for a b e'
    using float_of_int_positive [OF pos, of b]
    by (auto simp: fdiv_def split: pyfloat.splits if_splits)
  from assms(2) False show ?thesis
    by (auto simp: alignment_rate_of_def Let_def split: sum.splits dest: fm ft fd)
qed

lemma int_of_digits_acc:
  "0 \<le> a \<Longrightarrow> \<forall>c\<in>set s. is_digit c \<Longrightarrow>
     0 \<le> foldl (\<lambda>a c. 10 * a + (int (code c) - 48)) a s"
proof (induction s arbitrary: a)
  case Nil
  then show ?case by simp
next
  case (Cons c s)
  then have "48 \<le> code c" by (simp add: is_digit_def)
  with Cons.prems(1) have "0 \<le> 10 * a + (int (code c) - 48)" by simp
  with Cons show ?case by simp
qed

lemma int_of_digits_nonneg: "\<forall>c\<in>set s. is_digit c \<Longrightarrow> 0 \<le> int_of_digits s"
  unfolding int_of_digits_def by (rule int_of_digits_acc) simp_all

lemma two_nums_digits:
  assumes "two_nums line = Some (a, b)"
  shows "0 \<le> int_of_digits a \<and> 0 \<le> int_of_digits b"
proof -
  from assms have "a = takeWhile is_digit line"
    and "b = takeWhile is_digit (drop 3 (dropWhile is_digit line))"
    by (auto simp: two_nums_def Let_def split: if_splits)
  then have "\<forall>c\<in>set a. is_digit c" "\<forall>c\<in>set b. is_digit c"
    by (auto dest: set_takeWhileD)
  then show ?thesis
    by (simp add: int_of_digits_nonneg)
qed

lemma match_line_digits:
  "match_line lines i = Inr (a, b) \<Longrightarrow> 0 \<le> int_of_digits a \<and> 0 \<le> int_of_digits b"
  by (auto simp: match_line_def split: if_splits option.splits dest: two_nums_digits)

lemma match_line_errors:
  "match_line lines i = Inl e \<Longrightarrow> e = IndexError \<or> e = AttributeError ''group''"
  by (auto simp: match_line_def split: if_splits option.splits)

lemma match_line_malformed:
  "(length lines \<le> i \<or> two_nums (lines ! i) = None) \<longleftrightarrow> isl (match_line lines i)"
  by (auto simp: match_line_def split: option.splits)

section \<open>Lemmas on running processes\<close>

lemma run_one_process:
  "fst (run_steps w [Launch cmd cwd, Wait cmd]) = None \<longleftrightarrow> \<not> raises w cmd cwd"
  by (auto simp: raises_def split: option.splits sum.splits prod.splits)

section \<open>The path resolver\<close>

text \<open>
  Claim C7, as stated: for every call of the path resolver with no output name, the default
  output name is the input name with its trailing input extension replaced by the output
  extension when the input name ends with the input extension, and the input name with
  the output extension appended otherwise.

  The resolver compares the last four characters of the input name with the input
  extension and removes four characters. With the three-character extension \<open>.fa\<close> the
  name \<open>x.fa\<close> ends with the extension, and the output extension is appended to it.
\<close>

theorem prepare_paths_short_extension_counterexample:
  "suffix ''.fa'' ''x.fa''
   \<and> prepare_paths ''x.fa'' (Some ''/d'') None None ''.fa'' ''.fb''
       = Inr (''/d/x.fa'', ''/d/x.fa.fb'', ''/d'')"
  by (simp add: path_defs)

text \<open>
  Claim C7, amended: for every call of the path resolver with no output name, if the input
  extension has exactly four characters (as \<open>.sam\<close> and \<open>.bam\<close>, the only ones the
  operations pass) and the input name ends with it, the default output name is the input
  name with exactly that trailing extension replaced by the output extension; if the input
  name does not end with the input extension, the default output name is the input name
  with the output extension appended. The resolver joins that name to the output
  directory, which is the input directory when none is given.
\<close>

theorem default_output_name:
  "(length iext = 4 \<and> suffix iext ifile \<longrightarrow>
      default_ofile ifile iext oext = take (length ifile - length iext) ifile @ oext)
   \<and> (\<not> suffix iext ifile \<longrightarrow> default_ofile ifile iext oext = ifile @ oext)
   \<and> prepare_paths ifile (Some ipath) None None iext oext
       = Inr (path_join ipath ifile, path_join ipath (default_ofile ifile iext oext), ipath)
   \<and> (prefix ''/'' opath \<longrightarrow>
        prepare_paths ifile (Some ipath) None (Some opath) iext oext
        = Inr (path_join ipath ifile, path_join opath (default_ofile ifile iext oext), opath))"
  using last4_is_suffix [of iext ifile] not_suffix_not_last4 [of iext ifile]
  by (simp add: default_ofile_def prepare_paths_def)

theorem default_output_name_witness:
  "length ''.sam'' = 4 \<and> suffix ''.sam'' ''reads.sam''
   \<and> default_ofile ''reads.sam'' ''.sam'' ''.bam'' = ''reads.bam''
   \<and> \<not> suffix ''.sam'' ''reads.txt''
   \<and> default_ofile ''reads.txt'' ''.sam'' ''.bam'' = ''reads.txt.bam''
   \<and> prefix ''/'' ''/out''
   \<and> prepare_paths ''reads.sam'' (Some ''/data'') None (Some ''/out'') ''.sam'' ''.bam''
       = Inr (''/data/reads.sam'', ''/out/reads.bam'', ''/out'')"
  using default_output_name [of "''.sam''" "''reads.sam''" "''.bam''" "''/data''" "''/out''"]
    default_output_name [of "''.sam''" "''reads.txt''" "''.bam''" "''/data''" "''/out''"]
  by (simp add: path_join_def suffix_to_prefix)

text \<open>
  Claim C1: a call of \<open>convert_bam_to_sam\<close> with no output name and an input name ending
  in \<open>.bam\<close> resolves the output name to the input name with \<open>.bam\<close> replaced by
  \<open>.sam\<close>.

  The operation passes the extension pair \<open>('.sam', '.bam')\<close> to the path resolver, the
  pair of the opposite conversion. On the input \<open>reads.bam\<close> in \<open>/data\<close> the name does
  not end in \<open>.sam\<close>, so \<open>.bam\<close> is appended: the command that is run writes
  \<open>/data/reads.bam.bam\<close>, where the claim and the operation's own documentation give
  \<open>/data/reads.sam\<close>.
\<close>

theorem convert_bam_to_sam_default_output:
  "convert_bam_to_sam quiet_world None ''reads.bam'' (Some ''/data'') None None False
     (Some default_ignore)
   = (Inr 0,
      [Whereis ''samtools'',
       Log [Txt ''Converting bam to sam for file: /data/reads.bam with output file: /data/reads.bam.bam and cwd: /data''] None None,
       Popen ''samtools view -h /data/reads.bam > /data/reads.bam.bam'' (Some ''/data''),
       Communicate ''samtools view -h /data/reads.bam > /data/reads.bam.bam''])"
  by (simp add: convert_bam_to_sam_def path_defs pre_validate_def check_prog_def
      command_defs quiet_world_def)

section \<open>The validation verdict\<close>

text \<open>
  Claim C3: when no ignore list is given (\<open>ignore\<close> is \<open>None\<close>), the list used in its
  place matches no token, so that a report with a line containing \<open>ERROR:T\<close> fails for
  every word token \<open>T\<close>.

  The list used is \<open>['xxx']\<close>, which the source comments as "ignore no errors"; it
  matches the token \<open>xxx\<close>. The report \<open>ERROR:xxx\<close> passes.
\<close>

theorem is_valid_sentinel_ignored:
  "is_valid (Some ''ERROR:xxx'') None"
  by (simp add: is_valid_def text_defs)

text \<open>
  Claim C6: an empty or absent report passes; a report containing \<open>Exception\<close> fails
  whatever the ignore list; otherwise the report fails exactly when some line contains
  \<open>ERROR:\<close> directly followed by a word token that is not in the ignore list, and with
  the default list a report containing \<open>ERROR:SOMETHING_ELSE\<close> fails.

  Each line is searched for one match only. In the report below the token
  \<open>SOMETHING_ELSE\<close> is not in the default list and follows \<open>ERROR:\<close>, but it is the
  second match of its line: the report passes, where the claim and the docstring of
  \<open>_is_valid\<close> ("returns False if result contains errors not listed in the ignore
  list") give a failure.
\<close>

theorem is_valid_second_token_missed:
  "is_valid (Some ''ERROR:MATE_NOT_FOUND ERROR:SOMETHING_ELSE'') (Some default_ignore)"
  by (simp add: is_valid_def text_defs default_ignore_def)

text \<open>
  Claim C10: only the first \<open>ERROR:\<close> token of a line is tested against the ignore list.
  Take a line in which the first occurrence of \<open>ERROR:\<close> is followed by a token \<open>tok\<close>
  of the ignore list (a non-empty run of word characters, ended by the end of the line or
  by a character that is not a word character). Whatever follows the token on the line,
  also another \<open>ERROR:\<close> with a token that is not ignored, the search returns \<open>tok\<close>,
  the line never causes a failure among the lines of a report, and a report made of that
  line alone, without the word \<open>Exception\<close>, passes.
\<close>

theorem first_match_only:
  assumes "tok \<in> set ignore" "tok \<noteq> []" "\<forall>c\<in>set tok. is_word c"
    "rest = [] \<or> \<not> is_word (hd rest)" "\<not> contains ''ERROR:'' pre"
  shows "search_error (pre @ ''ERROR:'' @ tok @ rest) = Some tok
    \<and> scan_lines ignore (before @ [pre @ ''ERROR:'' @ tok @ rest] @ after)
        = scan_lines ignore (before @ after)
    \<and> (splitlines (pre @ ''ERROR:'' @ tok @ rest) = [pre @ ''ERROR:'' @ tok @ rest]
         \<and> \<not> contains ''Exception'' (pre @ ''ERROR:'' @ tok @ rest)
       \<longrightarrow> is_valid (Some (pre @ ''ERROR:'' @ tok @ rest)) (Some ignore))"
proof -
  have s: "search_error (pre @ ''ERROR:'' @ tok @ rest) = Some tok"
    using assms(5,2,3,4) by (rule search_error_first)
  with assms(1) show ?thesis
    by (simp add: scan_lines_append is_valid_def)
qed

theorem first_match_only_witness:
  "''MISSING_READ_GROUP'' \<in> set default_ignore
   \<and> ''SOMETHING_ELSE'' \<notin> set default_ignore
   \<and> search_error (''x ERROR:MISSING_READ_GROUP 3 ERROR:SOMETHING_ELSE 1'')
       = Some ''MISSING_READ_GROUP''
   \<and> scan_lines default_ignore
        [''a'', ''x ERROR:MISSING_READ_GROUP 3 ERROR:SOMETHING_ELSE 1'', ''b'']
       = scan_lines default_ignore [''a'', ''b'']
   \<and> is_valid (Some ''x ERROR:MISSING_READ_GROUP 3 ERROR:SOMETHING_ELSE 1'')
        (Some default_ignore)"
  using first_match_only [of "''MISSING_READ_GROUP''" default_ignore
      "'' 3 ERROR:SOMETHING_ELSE 1''" "''x ''" "[''a'']" "[''b'']"]
  by (simp add: default_ignore_def text_defs)

section \<open>The statistics parser\<close>

text \<open>
  Claim C5: with \<open>A + B\<close> the two integers that start a line, the parser returns
  \<open>total_reads = A + B\<close> of line 0, \<open>mapped_reads = A\<close> of line 4,
  \<open>properly_paired = A\<close> of line 8, \<open>singletons = A\<close> of line 10 and
  \<open>unmapped_reads = total_reads - mapped_reads\<close>, with the alignment rate that lines 73
  to 80 compute, whenever these four lines match and that computation raises nothing.
  On every report of at least eleven lines whose line 0 is \<open>10 + 2\<close>, line 4 is
  \<open>8 + 0\<close>, line 8 is \<open>6 + 0\<close> and line 10 is \<open>1 + 0\<close>, whatever the other lines,
  it returns 12 reads, 8 mapped, 4 unmapped, 6 properly paired, 1 singleton and the rate
  \<open>4691249611844266 * 2^-46\<close>, the double that Python prints as 66.66666666666666,
  within 0.01 of 66.67.
\<close>

theorem stats_fields:
  "(match_line (splitlines stats) 0 = Inr (a0, b0)
     \<and> match_line (splitlines stats) 4 = Inr (a4, b4)
     \<and> match_line (splitlines stats) 8 = Inr (a8, b8)
     \<and> match_line (splitlines stats) 10 = Inr (a10, b10)
     \<and> alignment_rate_of lg (int_of_digits a4) (int_of_digits a0 + int_of_digits b0)
         = (Inr rate, evs)
    \<longrightarrow> extractAlignmentStatsInfo lg stats
         = (Inr \<lparr>alignment_rate = rate, multiple_alignments = 0,
                 properly_paired = int_of_digits a8, singletons = int_of_digits a10,
                 total_reads = int_of_digits a0 + int_of_digits b0,
                 unmapped_reads = int_of_digits a0 + int_of_digits b0 - int_of_digits a4,
                 mapped_reads = int_of_digits a4\<rparr>, evs))
   \<and> (11 \<le> length (splitlines stats)
       \<and> splitlines stats ! 0 = ''10 + 2'' \<and> splitlines stats ! 4 = ''8 + 0''
       \<and> splitlines stats ! 8 = ''6 + 0'' \<and> splitlines stats ! 10 = ''1 + 0''
      \<longrightarrow> extractAlignmentStatsInfo lg stats
           = (Inr \<lparr>alignment_rate = PyFloat (Dbl 4691249611844266 (- 46)),
                   multiple_alignments = 0, properly_paired = 6, singletons = 1,
                   total_reads = 12, unmapped_reads = 4, mapped_reads = 8\<rparr>, []))
   \<and> (case float_val (Dbl 4691249611844266 (- 46)) of
         Some v \<Rightarrow> \<bar>v - 6667 / 100\<bar> < 1 / 100
       | None \<Rightarrow> False)"
proof -
  have general: "extractAlignmentStatsInfo lg stats
      = (Inr \<lparr>alignment_rate = r, multiple_alignments = 0,
              properly_paired = int_of_digits c8, singletons = int_of_digits c10,
              total_reads = int_of_digits c0 + int_of_digits d0,
              unmapped_reads = int_of_digits c0 + int_of_digits d0 - int_of_digits c4,
              mapped_reads = int_of_digits c4\<rparr>, es)"
    if "match_line (splitlines stats) 0 = Inr (c0, d0)"
      "match_line (splitlines stats) 4 = Inr (c4, d4)"
      "match_line (splitlines stats) 8 = Inr (c8, d8)"
      "match_line (splitlines stats) 10 = Inr (c10, d10)"
      "alignment_rate_of lg (int_of_digits c4) (int_of_digits c0 + int_of_digits d0)
       = (Inr r, es)"
    for c0 d0 c4 d4 c8 d8 c10 d10 r es
    using that by (simp add: extractAlignmentStatsInfo_def extract_lines_def Let_def)
  have rate: "alignment_rate_of lg 8 12 = (Inr (PyFloat (Dbl 4691249611844266 (- 46))), [])"
    by (simp add: alignment_rate_of_def float_defs Let_def)
  have example: "extractAlignmentStatsInfo lg stats
      = (Inr \<lparr>alignment_rate = PyFloat (Dbl 4691249611844266 (- 46)),
              multiple_alignments = 0, properly_paired = 6, singletons = 1,
              total_reads = 12, unmapped_reads = 4, mapped_reads = 8\<rparr>, [])"
    if len: "11 \<le> length (splitlines stats)"
      and l0: "splitlines stats ! 0 = ''10 + 2''" and l4: "splitlines stats ! 4 = ''8 + 0''"
      and l8: "splitlines stats ! 8 = ''6 + 0''" and l10: "splitlines stats ! 10 = ''1 + 0''"
  proof -
    have m0: "match_line (splitlines stats) 0 = Inr (''10'', ''2'')"
      using len l0 by (auto simp: match_line_def two_nums_def Let_def is_digit_def code_def)
    have m4: "match_line (splitlines stats) 4 = Inr (''8'', ''0'')"
      using len l4 by (simp add: match_line_def two_nums_def Let_def is_digit_def code_def)
    have m8: "match_line (splitlines stats) 8 = Inr (''6'', ''0'')"
      using len l8 by (simp add: match_line_def two_nums_def Let_def is_digit_def code_def)
    have m10: "match_line (splitlines stats) 10 = Inr (''1'', ''0'')"
      using len l10 by (simp add: match_line_def two_nums_def Let_def is_digit_def code_def)
    have r: "alignment_rate_of lg (int_of_digits ''8'') (int_of_digits ''10'' + int_of_digits ''2'')
        = (Inr (PyFloat (Dbl 4691249611844266 (- 46))), [])"
      using rate by (simp add: int_of_digits_def code_def)
    from general [OF m0 m4 m8 m10 r] show ?thesis
      by (simp add: int_of_digits_def code_def)
  qed
  have near: "case float_val (Dbl 4691249611844266 (- 46)) of
      Some v \<Rightarrow> \<bar>v - 6667 / 100\<bar> < 1 / 100 | None \<Rightarrow> False"
    by (simp add: float_val_def)
  from general example near show ?thesis
    by blast
qed

theorem stats_fields_witness:
  "match_line (splitlines example_report) 0 = Inr (''10'', ''2'')
   \<and> match_line (splitlines example_report) 4 = Inr (''8'', ''0'')
   \<and> match_line (splitlines example_report) 8 = Inr (''6'', ''0'')
   \<and> match_line (splitlines example_report) 10 = Inr (''1'', ''0'')
   \<and> alignment_rate_of None 8 12 = (Inr (PyFloat (Dbl 4691249611844266 (- 46))), [])
   \<and> length (splitlines example_report) = 11
   \<and> extractAlignmentStatsInfo None example_report
       = (Inr \<lparr>alignment_rate = PyFloat (Dbl 4691249611844266 (- 46)),
               multiple_alignments = 0, properly_paired = 6, singletons = 1,
               total_reads = 12, unmapped_reads = 4, mapped_reads = 8\<rparr>, [])"
proof -
  have lines: "splitlines example_report
      = [''10 + 2'', ''filler'', ''filler'', ''filler'', ''8 + 0'', ''filler'', ''filler'',
         ''filler'', ''6 + 0'', ''filler'', ''1 + 0'']"
    by (simp add: example_report_def text_defs)
  have m: "match_line (splitlines example_report) 0 = Inr (''10'', ''2'')"
    "match_line (splitlines example_report) 4 = Inr (''8'', ''0'')"
    "match_line (splitlines example_report) 8 = Inr (''6'', ''0'')"
    "match_line (splitlines example_report) 10 = Inr (''1'', ''0'')"
    by (simp_all add: lines match_line_def two_nums_def Let_def is_digit_def code_def)
  have r: "alignment_rate_of None 8 12 = (Inr (PyFloat (Dbl 4691249611844266 (- 46))), [])"
    by (simp add: alignment_rate_of_def float_defs Let_def)
  have d: "int_of_digits ''10'' = 10" "int_of_digits ''2'' = 2" "int_of_digits ''8'' = 8"
    "int_of_digits ''6'' = 6" "int_of_digits ''1'' = 1" "int_of_digits ''0'' = 0"
    by (simp_all add: int_of_digits_def code_def)
  show ?thesis
    using stats_fields [of example_report "''10''" "''2''" "''8''" "''0''" "''6''" "''0''"
        "''1''" "''0''" None "PyFloat (Dbl 4691249611844266 (- 46))" "[]"] m r d
    by (simp add: lines)
qed

text \<open>
  Claim C4, as stated: for every flagstat report whose line 0 matches \<open>0 + 0\<close>, the
  parser returns an alignment rate of 0 without raising, and logs a warning, not an
  error.

  On a report of eleven well-formed lines that counts no read, the parser of an object
  that has a logger returns the rate 0 and calls the method \<open>error\<close> of the logger: the
  message has the severity of an error. The same report raises \<open>AttributeError\<close> when
  the object has no logger (the default of the constructor), and a report that has the
  line \<open>0 + 0\<close> and no fifth line raises \<open>IndexError\<close>.
\<close>

theorem zero_total_counterexample:
  "extractAlignmentStatsInfo (Some ''log'') zero_report
     = (Inr \<lparr>alignment_rate = PyInt 0, multiple_alignments = 0, properly_paired = 0,
             singletons = 0, total_reads = 0, unmapped_reads = 0, mapped_reads = 0\<rparr>,
        [LoggerCall ''log'' ERROR zero_total_message])
   \<and> extractAlignmentStatsInfo None zero_report = (Inl (AttributeError ''error''), [])
   \<and> extractAlignmentStatsInfo (Some ''log'') ''0 + 0'' = (Inl IndexError, [])"
  by (simp add: stats_defs text_defs zero_report_def)

text \<open>
  Claim C4, amended: for every flagstat report whose lines 0, 4, 8 and 10 all start with
  two integers and whose line 0 has the sum 0, the parser of an object that has a logger
  returns the alignment rate 0 (the integer) without raising, and logs one message, with
  the severity of an error, through that logger.
\<close>

theorem zero_total_rate:
  assumes "match_line (splitlines stats) 0 = Inr (g1, g2)"
    and "int_of_digits g1 + int_of_digits g2 = 0"
    and "match_line (splitlines stats) 4 = Inr (h1, h2)"
    and "match_line (splitlines stats) 8 = Inr (p1, p2)"
    and "match_line (splitlines stats) 10 = Inr (s1, s2)"
  shows "extractAlignmentStatsInfo (Some lg) stats
     = (Inr \<lparr>alignment_rate = PyInt 0, multiple_alignments = 0,
             properly_paired = int_of_digits p1, singletons = int_of_digits s1,
             total_reads = 0, unmapped_reads = - int_of_digits h1,
             mapped_reads = int_of_digits h1\<rparr>,
        [LoggerCall lg ERROR zero_total_message])"
  using assms
  by (simp add: extractAlignmentStatsInfo_def extract_lines_def alignment_rate_of_def Let_def)

theorem zero_total_rate_witness:
  "match_line (splitlines zero_report) 0 = Inr (''0'', ''0'')
   \<and> match_line (splitlines zero_report) 4 = Inr (''0'', ''0'')
   \<and> match_line (splitlines zero_report) 8 = Inr (''0'', ''0'')
   \<and> match_line (splitlines zero_report) 10 = Inr (''0'', ''0'')
   \<and> int_of_digits ''0'' + int_of_digits ''0'' = 0
   \<and> extractAlignmentStatsInfo (Some ''log'') zero_report
     = (Inr \<lparr>alignment_rate = PyInt 0, multiple_alignments = 0, properly_paired = 0,
             singletons = 0, total_reads = 0, unmapped_reads = 0, mapped_reads = 0\<rparr>,
        [LoggerCall ''log'' ERROR zero_total_message])"
  using zero_total_rate [of zero_report "''0''" "''0''" "''0''" "''0''" "''0''" "''0''"
      "''0''" "''0''" "''log''"]
  by (simp add: match_line_def two_nums_def int_of_digits_def text_defs zero_report_def
      Let_def)

text \<open>
  Claim C8: for every flagstat text in which one of the lines 0, 4, 8 and 10 is missing or
  does not start with two integers separated by \<open>+\<close>, the parser fails instead of
  returning statistics.

  The parser raises \<open>IndexError\<close> on a missing line and \<open>AttributeError\<close> (the
  method \<open>group\<close> of \<open>None\<close>) on a line that does not match. When lines 0 and 4 are
  well formed and the bad line is line 8 or 10, the computation of the rate comes first
  and can raise before the bad line is read: \<open>AttributeError\<close> (no logger, zero total)
  or \<open>OverflowError\<close> (a count too large for a float). In no case does it return.
\<close>

theorem malformed_report_raises:
  assumes "i \<in> {0, 4, 8, 10}"
    and "length (splitlines stats) \<le> i \<or> two_nums (splitlines stats ! i) = None"
  shows "fst (extractAlignmentStatsInfo lg stats)
    \<in> {Inl IndexError, Inl (AttributeError ''group''), Inl (AttributeError ''error''),
        Inl OverflowError}"
proof -
  define lines where "lines = splitlines stats"
  have bad: "isl (match_line lines i)"
    using assms(2) by (simp add: match_line_malformed lines_def)
  have rate: "e = AttributeError ''error'' \<or> e = OverflowError"
    if "match_line lines 0 = Inr (g1, g2)" "match_line lines 4 = Inr (h1, h2)"
      "alignment_rate_of lg (int_of_digits h1) (int_of_digits g1 + int_of_digits g2)
       = (Inl e, evs)"
    for g1 g2 h1 h2 e evs
  proof -
    have "0 \<le> int_of_digits g1 + int_of_digits g2"
      using match_line_digits [OF that(1)] by simp
    then show ?thesis
      using alignment_rate_of_errors [of "int_of_digits g1 + int_of_digits g2" lg
          "int_of_digits h1" e] that(3)
      by simp
  qed
  have "fst (extract_lines lg lines)
    \<in> {Inl IndexError, Inl (AttributeError ''group''), Inl (AttributeError ''error''),
        Inl OverflowError}"
    using assms(1) bad
    by (auto simp: extract_lines_def Let_def split: sum.splits prod.splits
        dest: match_line_errors rate)
  then show ?thesis
    by (simp add: extractAlignmentStatsInfo_def lines_def)
qed

theorem malformed_report_raises_witness:
  "two_nums (splitlines ''10 + 2\<newline>x\<newline>x\<newline>x\<newline>8 mapped'' ! 4) = None
   \<and> fst (extractAlignmentStatsInfo None ''10 + 2\<newline>x\<newline>x\<newline>x\<newline>8 mapped'')
       = Inl (AttributeError ''group'')
   \<and> length (splitlines ''10 + 2\<newline>x\<newline>x\<newline>x\<newline>8 + 0\<newline>x'') \<le> 8
   \<and> fst (extractAlignmentStatsInfo None ''10 + 2\<newline>x\<newline>x\<newline>x\<newline>8 + 0\<newline>x'')
       = Inl IndexError"
proof -
  have a: "splitlines ''10 + 2\<newline>x\<newline>x\<newline>x\<newline>8 mapped''
      = [''10 + 2'', ''x'', ''x'', ''x'', ''8 mapped'']"
    and b: "splitlines ''10 + 2\<newline>x\<newline>x\<newline>x\<newline>8 + 0\<newline>x''
      = [''10 + 2'', ''x'', ''x'', ''x'', ''8 + 0'', ''x'']"
    by (simp_all add: text_defs)
  have r: "alignment_rate_of None 8 12 = (Inr (PyFloat (Dbl 4691249611844266 (- 46))), [])"
    by (simp add: alignment_rate_of_def float_defs Let_def)
  have d: "int_of_digits ''10'' = 10" "int_of_digits ''2'' = 2" "int_of_digits ''8'' = 8"
    by (simp_all add: int_of_digits_def code_def)
  have m: "two_nums ''10 + 2'' = Some (''10'', ''2'')" "two_nums ''8 + 0'' = Some (''8'', ''0'')"
    "two_nums ''8 mapped'' = None"
    by (simp_all add: two_nums_def Let_def is_digit_def code_def)
  show ?thesis
    using malformed_report_raises [of 4 "''10 + 2\<newline>x\<newline>x\<newline>x\<newline>8 mapped''" None]
      malformed_report_raises [of 8 "''10 + 2\<newline>x\<newline>x\<newline>x\<newline>8 + 0\<newline>x''" None]
    by (simp add: a b m d r extractAlignmentStatsInfo_def extract_lines_def match_line_def)
qed

section \<open>The operations\<close>

text \<open>
  Claim C9, as stated: every conversion or index-creation operation called with an input
  path that does not exist fails with the file-not-found error before any external process
  is launched.

  The path resolver runs first. With an input file that does not exist and an output
  directory that is not absolute, the operation raises the resolver's error about the
  output directory (an \<open>Exception\<close>), not the file-not-found \<open>RuntimeError\<close>.
\<close>

theorem nonexistent_input_counterexample:
  "\<not> path_exists no_file_world (path_join ''/data'' ''reads.sam'')
   \<and> convert_sam_to_sorted_bam no_file_world None ''reads.sam'' (Some ''/data'') None
        (Some ''out'') False (Some default_ignore)
      = (Inl (Exception ''Output path must be an absolute path. Provided: out''), [])"
  by (simp add: convert_sam_to_sorted_bam_def path_defs no_file_world_def quiet_world_def)

text \<open>
  Claim C9, amended: every conversion or index-creation operation called with an input
  path that does not exist fails before anything is done outside (no lookup of the tool,
  no process launched, nothing logged): with the file-not-found error when the output
  directory is absent or absolute, and with the path resolver's error on the output
  directory otherwise.
\<close>

theorem nonexistent_input_launches_nothing:
  assumes "\<not> path_exists w (path_join ipath ifile)"
  shows
    "snd (convert_sam_to_sorted_bam w lg ifile (Some ipath) ofile opath flag ignore) = []
     \<and> snd (convert_bam_to_sam w lg ifile (Some ipath) ofile opath flag ignore) = []
     \<and> snd (create_bai_from_bam w lg ifile (Some ipath) ofile opath flag ignore) = []
     \<and> ((case opath of None \<Rightarrow> True | Some p \<Rightarrow> prefix ''/'' p) \<longrightarrow>
          fst (convert_sam_to_sorted_bam w lg ifile (Some ipath) ofile opath flag ignore)
            = Inl (RuntimeError (''Input sam file does not exist: '' @ path_join ipath ifile))
          \<and> fst (convert_bam_to_sam w lg ifile (Some ipath) ofile opath flag ignore)
            = Inl (RuntimeError (''Input bam file does not exist: '' @ path_join ipath ifile))
          \<and> fst (create_bai_from_bam w lg ifile (Some ipath) ofile opath flag ignore)
            = Inl (RuntimeError (''Input bam file does not exist: '' @ path_join ipath ifile)))
     \<and> (\<forall>p. opath = Some p \<and> \<not> prefix ''/'' p \<longrightarrow>
          fst (convert_sam_to_sorted_bam w lg ifile (Some ipath) ofile opath flag ignore)
            = Inl (Exception (''Output path must be an absolute path. Provided: '' @ p))
          \<and> fst (convert_bam_to_sam w lg ifile (Some ipath) ofile opath flag ignore)
            = Inl (Exception (''Output path must be an absolute path. Provided: '' @ p))
          \<and> fst (create_bai_from_bam w lg ifile (Some ipath) ofile opath flag ignore)
            = Inl (Exception (''Output path must be an absolute path. Provided: '' @ p)))"
  using assms
  by (cases opath)
    (simp_all add: convert_sam_to_sorted_bam_def convert_bam_to_sam_def
      create_bai_from_bam_def prepare_paths_def)

theorem nonexistent_input_launches_nothing_witness:
  "\<not> path_exists no_file_world (path_join ''/data'' ''reads.sam'')
   \<and> convert_sam_to_sorted_bam no_file_world None ''reads.sam'' (Some ''/data'') None None
        True (Some default_ignore)
       = (Inl (RuntimeError ''Input sam file does not exist: /data/reads.sam''), [])
   \<and> convert_bam_to_sam no_file_world None ''reads.sam'' (Some ''/data'') None None
        True (Some default_ignore)
       = (Inl (RuntimeError ''Input bam file does not exist: /data/reads.sam''), [])
   \<and> create_bai_from_bam no_file_world None ''reads.sam'' (Some ''/data'') None None
        True (Some default_ignore)
       = (Inl (RuntimeError ''Input bam file does not exist: /data/reads.sam''), [])
   \<and> create_bai_from_bam no_file_world None ''reads.sam'' (Some ''/data'') None
        (Some ''out'') True (Some default_ignore)
       = (Inl (Exception ''Output path must be an absolute path. Provided: out''), [])"
  using nonexistent_input_launches_nothing [of no_file_world "''/data''" "''reads.sam''"
      None None None True "Some default_ignore"]
    nonexistent_input_launches_nothing [of no_file_world "''/data''" "''reads.sam''"
      None None "Some ''out''" True "Some default_ignore"]
  by (simp add: prod_eq_iff path_join_def suffix_to_prefix no_file_world_def quiet_world_def)

text \<open>
  Claim C2, as stated: \<open>create_bai_from_bam\<close> returns 1 when its subprocess raises, and
  each of \<open>convert_sam_to_sorted_bam\<close>, \<open>convert_bam_to_sam\<close> and \<open>validate\<close> returns
  0 whatever its subprocess raises.

  \<open>validate\<close> returns 1 from its \<open>except\<close> clause: on a machine where no process can be
  launched, the launch of the validator raises and \<open>validate\<close> returns 1.
\<close>

theorem validate_subprocess_raises_counterexample:
  "popen no_launch_world (validate_command ''/data/reads.bam'') None = Some ''cannot fork''
   \<and> fst (validate no_launch_world None ''reads.bam'' ''/data'' (Some default_ignore)) = Inr 1"
  by (simp add: validate_def path_join_def suffix_to_prefix command_defs no_launch_world_def
      quiet_world_def)

text \<open>
  Claim C2, amended: \<open>create_bai_from_bam\<close> and \<open>validate\<close> return 1 when their
  subprocess invocation raises, while \<open>convert_sam_to_sorted_bam\<close> and
  \<open>convert_bam_to_sam\<close> return 0 whenever they reach their conversion subprocess,
  whether that subprocess raises or not.

  An operation reaches its subprocess when the input exists, the validation was not asked
  for or passed, and \<open>samtools\<close> is found; under these conditions
  \<open>create_bai_from_bam\<close> returns 1 exactly when its subprocess raises. \<open>validate\<close>
  looks for no tool and validates nothing beforehand: it reaches its subprocess when the
  input directory is absolute and the input exists, and then returns 1 whenever the
  subprocess raises, whatever else holds of the machine.
\<close>

theorem status_when_subprocess_raises:
  "(path_exists w (path_join ipath ifile)
     \<and> pre_validate w lg flag (path_join ipath ifile) (Some ipath) ignore = (None, evs)
     \<and> fst (check_prog w) = Inr ()
     \<and> (case opath of None \<Rightarrow> True | Some p \<Rightarrow> prefix ''/'' p)
    \<longrightarrow>
      fst (convert_sam_to_sorted_bam w lg ifile (Some ipath) ofile opath flag ignore) = Inr 0
      \<and> fst (convert_bam_to_sam w lg ifile (Some ipath) ofile opath flag ignore) = Inr 0
      \<and> (\<forall>i out p. prepare_paths ifile (Some ipath) ofile opath ''.bam'' ''.bai''
                       = Inr (i, out, p) \<longrightarrow>
           fst (create_bai_from_bam w lg ifile (Some ipath) ofile opath flag ignore)
             = (if raises w (index_command i out) (Some p) then Inr 1 else Inr 0)))
   \<and> (prefix ''/'' vpath \<and> path_exists v (path_join vpath vfile)
       \<and> raises v (validate_command (path_join vpath vfile)) None
      \<longrightarrow> fst (validate v vlg vfile vpath vignore) = Inr 1)"
proof -
  have conv: "fst (convert_sam_to_sorted_bam w lg ifile (Some ipath) ofile opath flag ignore)
        = Inr 0
      \<and> fst (convert_bam_to_sam w lg ifile (Some ipath) ofile opath flag ignore) = Inr 0
      \<and> (\<forall>i out p. prepare_paths ifile (Some ipath) ofile opath ''.bam'' ''.bai''
                       = Inr (i, out, p) \<longrightarrow>
           fst (create_bai_from_bam w lg ifile (Some ipath) ofile opath flag ignore)
             = (if raises w (index_command i out) (Some p) then Inr 1 else Inr 0))"
    if ex: "path_exists w (path_join ipath ifile)"
      and pv: "pre_validate w lg flag (path_join ipath ifile) (Some ipath) ignore = (None, evs)"
      and tool: "fst (check_prog w) = Inr ()"
      and out: "case opath of None \<Rightarrow> True | Some p \<Rightarrow> prefix ''/'' p"
  proof -
    obtain u evs2 where cp: "check_prog w = (Inr u, evs2)"
      using tool by (cases "check_prog w") auto
    have a: "fst (convert_sam_to_sorted_bam w lg ifile (Some ipath) ofile opath flag ignore)
        = Inr 0"
      using ex pv out cp
      by (cases opath)
        (simp_all add: convert_sam_to_sorted_bam_def prepare_paths_def split: prod.splits)
    have b: "fst (convert_bam_to_sam w lg ifile (Some ipath) ofile opath flag ignore) = Inr 0"
      using ex pv out cp
      by (cases opath)
        (simp_all add: convert_bam_to_sam_def prepare_paths_def split: prod.splits)
    have c: "fst (create_bai_from_bam w lg ifile (Some ipath) ofile opath flag ignore)
        = (if raises w (index_command i outp) (Some p) then Inr 1 else Inr 0)"
      if pp: "prepare_paths ifile (Some ipath) ofile opath ''.bam'' ''.bai'' = Inr (i, outp, p)"
      for i outp p
    proof -
      have i: "i = path_join ipath ifile"
        using pp out by (cases opath) (auto simp: prepare_paths_def)
      obtain r evs3 where rs:
        "run_steps w [Launch (index_command i outp) (Some p), Wait (index_command i outp)]
         = (r, evs3)"
        by (cases "run_steps w [Launch (index_command i outp) (Some p),
              Wait (index_command i outp)]") auto
      have "r = None \<longleftrightarrow> \<not> raises w (index_command i outp) (Some p)"
        using run_one_process [of w "index_command i outp" "Some p"] rs by simp
      then show ?thesis
        using pp ex pv cp rs i
        by (cases r) (simp_all add: create_bai_from_bam_def)
    qed
    from a b c show ?thesis by blast
  qed
  have val: "fst (validate v vlg vfile vpath vignore) = Inr 1"
    if "prefix ''/'' vpath" "path_exists v (path_join vpath vfile)"
      "raises v (validate_command (path_join vpath vfile)) None"
    using that
    by (auto simp: validate_def raises_def Let_def split: option.splits sum.splits)
  from conv val show ?thesis by blast
qed

theorem status_when_subprocess_raises_witness:
  "path_exists no_launch_world (path_join ''/data'' ''reads.bam'')
   \<and> pre_validate no_launch_world None False (path_join ''/data'' ''reads.bam'')
        (Some ''/data'') (Some default_ignore) = (None, [])
   \<and> fst (check_prog no_launch_world) = Inr ()
   \<and> raises no_launch_world (index_command ''/data/reads.bam'' ''/data/reads.bai'')
        (Some ''/data'')
   \<and> fst (convert_sam_to_sorted_bam no_launch_world None ''reads.bam'' (Some ''/data'') None
            None False (Some default_ignore)) = Inr 0
   \<and> fst (convert_bam_to_sam no_launch_world None ''reads.bam'' (Some ''/data'') None
            None False (Some default_ignore)) = Inr 0
   \<and> fst (create_bai_from_bam no_launch_world None ''reads.bam'' (Some ''/data'') None
            None False (Some default_ignore)) = Inr 1
   \<and> fst (check_prog (no_launch_world\<lparr>whereis := (\<lambda>prog. None)\<rparr>))
       = Inl (RuntimeError
           ''samtools command not found in your PATH environmental variable. /usr/bin'')
   \<and> prefix ''/'' ''/data''
   \<and> path_exists (no_launch_world\<lparr>whereis := (\<lambda>prog. None)\<rparr>)
        (path_join ''/data'' ''reads.bam'')
   \<and> raises (no_launch_world\<lparr>whereis := (\<lambda>prog. None)\<rparr>)
        (validate_command (path_join ''/data'' ''reads.bam'')) None
   \<and> fst (validate (no_launch_world\<lparr>whereis := (\<lambda>prog. None)\<rparr>) None ''reads.bam''
            ''/data'' None) = Inr 1"
  using status_when_subprocess_raises [of no_launch_world "''/data''" "''reads.bam''" None
      False "Some default_ignore" "[]" None None "''/data''"
      "no_launch_world\<lparr>whereis := (\<lambda>prog. None)\<rparr>" "''reads.bam''" None None]
  by (simp add: path_defs pre_validate_def check_prog_def raises_def command_defs
      no_launch_world_def quiet_world_def)

end
